theory Spec2Isabelle
  imports Main "HOL-Library.Sublist"
begin

section \<open>The launcher \<open>sr\<close> (src/src/sr.c) as a function of its environment\<close>

text \<open>
  \<open>sr.c\<close> is a straight-line driver around library calls: option parsing, identity
  lookup, authentication, policy lookup, four capability calls, environment and PATH
  filtering, command resolution and \<open>execve\<close>. The embedding keeps the control flow of
  the C text and takes the answer of every library call from a record \<open>world\<close>.
  The process itself is a record \<open>proc\<close> (its \<open>errno\<close>, whether CAP_SETPCAP is in its
  effective set, the installed capability triple, the lockdown flag, and the list of
  calls it has made so far).
\<close>

subsection \<open>C data\<close>

text \<open>A \<open>char *\<close>: the null pointer or a string.\<close>

datatype cptr = Null | Str string

text \<open>Constants of \<open>linux/limits.h\<close> and \<open>errno.h\<close>.\<close>

definition PATH_MAX :: nat where "PATH_MAX = 4096"
definition ENOENT :: nat where "ENOENT = 2"
definition ENOEXEC :: nat where "ENOEXEC = 8"
definition EACCES :: nat where "EACCES = 13"
definition EFAULT :: nat where "EFAULT = 14"
definition ENAMETOOLONG :: nat where "ENAMETOOLONG = 36"

text \<open>\<open>arguments_t\<close>, lines 21-26 (\<open>help_flag\<close> is the field \<open>help\<close>).\<close>

record arguments_t =
  role :: cptr
  info :: int
  version :: int
  help_flag :: int

text \<open>
  The capability triple behind \<open>cap_iab_t\<close> and the structure behind \<open>options_t\<close>.
  Their declarations (libcap, \<open>xml_manager.h\<close>) are not part of \<open>sr.c\<close>; the fields are
  the ones \<open>main\<close> reads (\<open>no_root\<close>, \<open>env_keep\<close>, \<open>env_check\<close>, \<open>path\<close>) and the three
  sets of the data model.
\<close>

record cap_iab =
  inheritable :: "string list"
  ambient :: "string list"
  bounding :: "string list"

record options_t =
  no_root :: int
  env_keep :: "string list"
  env_check :: "string list"
  path :: string

subsection \<open>Calls, outcomes and the process state\<close>

datatype event =
    Printf string
  | Error string
  | Call_get_username nat
  | Call_pam_authenticate_user string
  | Call_get_group_names string nat
  | Call_print_rights string "string list"
  | Call_print_rights_role cptr string "string list"
  | Call_get_settings_from_config string "string list" string
  | Call_setpcap_effective int
  | Call_cap_iab_set_proc cap_iab
  | Call_activates_securebits
  | Call_filter_env_vars "string list" "string list" "string list"
  | Call_secure_path cptr string
  | Call_realpath cptr
  | Call_access cptr
  | Call_reallocarray nat
  | Call_execve cptr "cptr list" "string list"

datatype fault = Null_dereference

text \<open>
  How the process ends: \<open>exit\<close> with a status, replacement of the image by a successful
  \<open>execve\<close> (path, argument vector, environment), or a memory fault.
\<close>

datatype outcome =
    Exited int
  | Replaced string "cptr list" "string list"
  | Crashed fault

record proc =
  errno :: nat
  eff_setpcap :: bool
  proc_iab :: "cap_iab option"
  securebits :: bool
  trace :: "event list"

text \<open>
  At program start \<open>errno\<close> is zero, the effective set holds no CAP_SETPCAP (the program
  raises it itself at line 155), and nothing has been called.
\<close>

definition proc0 :: proc where
  "proc0 = \<lparr>errno = 0, eff_setpcap = False, proc_iab = None, securebits = False, trace = []\<rparr>"

text \<open>A computation either ends the process or goes on with a value.\<close>

datatype 'a res = Done outcome proc | Cont 'a proc

fun bnd :: "'a res \<Rightarrow> ('a \<Rightarrow> proc \<Rightarrow> 'b res) \<Rightarrow> 'b res" where
  "bnd (Done out s) f = Done out s"
| "bnd (Cont a s) f = f a s"

fun final_outcome :: "'a res \<Rightarrow> outcome option" where
  "final_outcome (Done out s) = Some out"
| "final_outcome (Cont a s) = None"

fun final_proc :: "'a res \<Rightarrow> proc" where
  "final_proc (Done out s) = s"
| "final_proc (Cont a s) = s"

definition log :: "event \<Rightarrow> proc \<Rightarrow> proc" where
  "log e s = s\<lparr>trace := trace s @ [e]\<rparr>"

text \<open>
  glibc's \<open>error(status, errnum, format, ...)\<close>: one diagnostic line on stderr, then
  \<open>exit(status)\<close> when \<open>status\<close> is not zero. Every call of \<open>sr.c\<close> passes \<open>errnum = 0\<close>
  (no \<open>strerror\<close> text is appended); \<open>msg\<close> is the formatted message.
\<close>

definition error :: "int \<Rightarrow> int \<Rightarrow> string \<Rightarrow> proc \<Rightarrow> unit res" where
  "error status errnum msg s =
     (if status = 0 then Cont () (log (Error msg) s)
      else Done (Exited status) (log (Error msg) s))"

subsection \<open>The environment of one run\<close>

text \<open>
  Every field is the answer of one library call of \<open>sr.c\<close>, as a function of the
  arguments the C text passes.
  \<^item> \<open>getopt_seq\<close>: the successive return values of \<open>getopt_long\<close> before \<open>-1\<close>, each with
    the \<open>optarg\<close> it leaves; \<open>optind\<close>: the index of the first remaining argument
    (\<open>getopt_long\<close> leaves \<open>optind \<le> argc\<close> in every run started with at least the program
    name; started with an empty argument vector it leaves \<open>optind = 1\<close> over \<open>argc = 0\<close>).
  \<^item> \<open>get_username\<close>: \<open>Null\<close> on failure. \<open>pam_authenticate_user\<close>: zero on failure.
  \<^item> \<open>get_group_names\<close>: return code (zero on success) and the group names.
  \<^item> \<open>get_settings_from_config\<close>: \<open>None\<close> when it returns 0, else the triple and options
    it stores through its out-parameters.
  \<^item> \<open>setpcap_effective_rc\<close>, \<open>cap_iab_set_proc_rc\<close>, \<open>activates_securebits_rc\<close>: return
    codes, zero on success.
  \<^item> \<open>filter_env_vars\<close>: return code and the new environment; \<open>secure_path\<close>: return code.
  \<^item> \<open>getenv_PATH\<close>: \<open>getenv("PATH")\<close> at line 174; \<open>getenv_PATH_secured\<close>: the same at
    line 71, after \<open>secure_path\<close> has run.
  \<^item> \<open>errno_before_realpath\<close>: the value \<open>errno\<close> holds when control reaches line 179,
    left there by the library calls of lines 47-174 (\<open>main\<close> never assigns \<open>errno\<close>).
  \<^item> \<open>realpath\<close>: \<open>Inl e\<close> when it returns NULL with \<open>errno = e\<close>, \<open>Inr p\<close> when it returns \<open>p\<close>;
    \<open>realpath_success_errno\<close>: what a successful \<open>realpath\<close> does to \<open>errno\<close>, \<open>None\<close> when it
    leaves it alone, \<open>Some e\<close> when it leaves \<open>e\<close> there (POSIX fixes neither; a C library
    that probes each path component with \<open>readlink\<close> leaves EINVAL).
  \<^item> \<open>strdup_ok\<close>: whether the allocation of line 71 succeeds.
  \<^item> \<open>access_X_OK\<close>: \<open>None\<close> when \<open>access(p, X_OK)\<close> is 0, \<open>Some e\<close> when it is -1 with
    \<open>errno = e\<close>.
  \<^item> \<open>execve\<close>: \<open>None\<close> when the image is replaced, \<open>Some e\<close> when the call returns -1
    with \<open>errno = e\<close>.
  \<^item> \<open>reallocarray_ok\<close>: whether the allocation of line 94 succeeds.
\<close>

record world =
  getopt_seq :: "(char \<times> cptr) list"
  optind :: nat
  geteuid :: nat
  get_username :: "nat \<Rightarrow> cptr"
  pam_authenticate_user :: "string \<Rightarrow> int"
  get_group_id :: "nat \<Rightarrow> nat"
  get_group_names :: "string \<Rightarrow> nat \<Rightarrow> int \<times> string list"
  get_settings_from_config :: "string \<Rightarrow> string list \<Rightarrow> string \<Rightarrow> (cap_iab \<times> options_t) option"
  setpcap_effective_rc :: "int \<Rightarrow> int"
  cap_iab_set_proc_rc :: "cap_iab \<Rightarrow> int"
  activates_securebits_rc :: int
  environ :: "string list"
  filter_env_vars :: "string list \<Rightarrow> string list \<Rightarrow> string list \<Rightarrow> int \<times> string list"
  getenv_PATH :: cptr
  secure_path :: "cptr \<Rightarrow> string \<Rightarrow> int"
  getenv_PATH_secured :: cptr
  errno_before_realpath :: nat
  realpath :: "string \<Rightarrow> nat + string"
  realpath_success_errno :: "nat option"
  strdup_ok :: bool
  access_X_OK :: "string \<Rightarrow> nat option"
  execve :: "string \<Rightarrow> nat option"
  reallocarray_ok :: bool

subsection \<open>\<open>parse_arguments\<close>, lines 37-68\<close>

text \<open>
  The \<open>while\<close>/\<open>switch\<close> of lines 47-64 over the values \<open>getopt_long\<close> returns. The
  \<open>default\<close> branch returns 0 at once, with the fields set so far.
\<close>

fun getopt_loop :: "(char \<times> cptr) list \<Rightarrow> arguments_t \<Rightarrow> int \<times> arguments_t" where
  "getopt_loop [] args = (1, args)"
| "getopt_loop ((c, optarg) # rest) args =
     (if c = CHR ''r'' then getopt_loop rest (args\<lparr>role := optarg\<rparr>)
      else if c = CHR ''i'' then getopt_loop rest (args\<lparr>info := 1\<rparr>)
      else if c = CHR ''v'' then getopt_loop rest (args\<lparr>version := 1\<rparr>)
      else if c = CHR ''h'' then getopt_loop rest (args\<lparr>help_flag := 1\<rparr>)
      else (0, args))"

text \<open>
  Returns the return value, the new \<open>argc\<close> and \<open>argv\<close> and the filled structure. An
  argument vector is the list of its strings; the null pointer that ends it in C is
  implicit (see \<open>argv_read\<close>). \<open>*argv += optind\<close> drops the first \<open>optind\<close> entries.

  Range: the shift is that of lines 65-66 for \<open>optind \<le> argc\<close>. For \<open>optind > argc\<close> (a
  run started with an empty argument vector) the C text leaves a negative \<open>argc\<close> and
  an \<open>argv\<close> that points past the terminator of its array, into the words that follow
  it in memory; the subtraction on \<open>nat\<close> and \<open>drop\<close> do not represent that, and every
  statement below that reads the shifted \<open>argc\<close> or \<open>argv\<close> is made for \<open>optind \<le> argc\<close>.
\<close>

definition parse_arguments ::
  "world \<Rightarrow> nat \<Rightarrow> string list \<Rightarrow> arguments_t \<Rightarrow> int \<times> nat \<times> string list \<times> arguments_t" where
  "parse_arguments w argc argv args =
     (case getopt_loop (getopt_seq w) args of
        (ret, args') \<Rightarrow>
          if ret = 0 then (0, argc, argv, args')
          else (1, argc - optind w, drop (optind w) argv, args'))"

text \<open>
  \<open>argv[i]\<close> for \<open>i \<le> argc\<close>: the \<open>i\<close>-th string, and the terminating null pointer at
  index \<open>argc\<close>, the last slot of the C array. Past that slot the C array has ended
  (what lies there is not part of the argument vector); the value \<open>Null\<close> given there
  stands for nothing in the program, and no statement below reads an index past
  \<open>argc\<close>.
\<close>

definition argv_read :: "string list \<Rightarrow> nat \<Rightarrow> cptr" where
  "argv_read argv i = (if i < length argv then Str (argv ! i) else Null)"

text \<open>The C array behind an argument vector: its strings, then the null pointer.\<close>

definition argv_array :: "string list \<Rightarrow> cptr list" where
  "argv_array argv = map Str argv @ [Null]"

subsection \<open>\<open>find_absolute_path_from_env\<close>, lines 70-87\<close>

text \<open>
  The tokens \<open>strtok(path, ":")\<close> yields, in order: the maximal runs of characters other
  than the colon; empty runs are skipped.
\<close>

fun strtok_tokens :: "string \<Rightarrow> string \<Rightarrow> string list" where
  "strtok_tokens acc [] = (if acc = [] then [] else [acc])"
| "strtok_tokens acc (c # cs) =
     (if c = CHR '':'' then
        (if acc = [] then strtok_tokens [] cs else acc # strtok_tokens [] cs)
      else strtok_tokens (acc @ [c]) cs)"

text \<open>\<open>access(p, X_OK)\<close>; a null path fails with EFAULT. A failing call sets \<open>errno\<close>.\<close>

definition access :: "world \<Rightarrow> cptr \<Rightarrow> proc \<Rightarrow> int \<times> proc" where
  "access w p s =
     (let s' = log (Call_access p) s in
      case p of
        Null \<Rightarrow> (-1, s'\<lparr>errno := EFAULT\<rparr>)
      | Str f \<Rightarrow> (case access_X_OK w f of
                   None \<Rightarrow> (0, s')
                 | Some e \<Rightarrow> (-1, s'\<lparr>errno := e\<rparr>)))"

text \<open>The loop of lines 77-85 over the tokens.\<close>

fun path_loop :: "world \<Rightarrow> string \<Rightarrow> string list \<Rightarrow> proc \<Rightarrow> cptr \<times> proc" where
  "path_loop w file [] s = (Null, s)"
| "path_loop w file (token # rest) s =
     (let full_path = token @ ''/'' @ file in
      case access w (Str full_path) s of
        (r, s') \<Rightarrow> if r = 0 then (Str full_path, s') else path_loop w file rest s')"

text \<open>
  Line 71 passes \<open>getenv("PATH")\<close> to \<open>strdup\<close> unchecked: with PATH unset that is a read
  through the null pointer. Lines 72-74 return NULL when \<open>strdup\<close> cannot allocate. The
  \<open>malloc\<close> of line 78 is taken to succeed (its result is not tested).
\<close>

definition find_absolute_path_from_env :: "world \<Rightarrow> string \<Rightarrow> proc \<Rightarrow> cptr res" where
  "find_absolute_path_from_env w file s =
     (case getenv_PATH_secured w of
        Null \<Rightarrow> Done (Crashed Null_dereference) s
      | Str p \<Rightarrow>
          if \<not> strdup_ok w then Cont Null s
          else (case path_loop w file (strtok_tokens [] p) s of
                  (r, s') \<Rightarrow> Cont r s'))"

subsection \<open>\<open>sr_execve\<close>, lines 89-103\<close>

text \<open>
  A heap block of pointers: the number of slots it was allocated with, and the stores
  made through it in program order, each with its index. A store at an index that is
  not below \<open>slots\<close> lands outside the block.
\<close>

record block =
  slots :: nat
  written :: "(nat \<times> cptr) list"

definition reallocarray :: "nat \<Rightarrow> block" where
  "reallocarray n = \<lparr>slots = n, written = []\<rparr>"

definition store :: "block \<Rightarrow> nat \<Rightarrow> cptr \<Rightarrow> block" where
  "store b i v = b\<lparr>written := written b @ [(i, v)]\<rparr>"

text \<open>\<open>memcpy(b + off, src, n * sizeof(char *))\<close>: the first \<open>n\<close> pointers of \<open>src\<close>.\<close>

definition memcpy :: "block \<Rightarrow> nat \<Rightarrow> cptr list \<Rightarrow> nat \<Rightarrow> block" where
  "memcpy b off src n = b\<lparr>written := written b @ zip [off ..< off + n] (take n src)\<rparr>"

text \<open>Lines 94-98: the vector built for the shell.\<close>

definition nargv_build :: "cptr \<Rightarrow> nat \<Rightarrow> cptr list \<Rightarrow> block" where
  "nargv_build command p_argc p_argv =
     (let nargv = reallocarray (p_argc + 1);
          nargv = store nargv 0 (Str ''sh'');
          nargv = store nargv 1 command
      in memcpy nargv 2 p_argv p_argc)"

text \<open>What \<open>execve\<close> is handed when given the block: the stored pointers, in index order.\<close>

definition block_cells :: "block \<Rightarrow> cptr list" where
  "block_cells b = map snd (written b)"

text \<open>
  \<open>execve\<close> returns only when it fails, and then returns -1 with \<open>errno\<close> set; a null
  path fails with EFAULT.
\<close>

definition do_execve :: "world \<Rightarrow> cptr \<Rightarrow> cptr list \<Rightarrow> string list \<Rightarrow> proc \<Rightarrow> int res" where
  "do_execve w file av envp s =
     (let s' = log (Call_execve file av envp) s in
      case file of
        Null \<Rightarrow> Cont (-1) (s'\<lparr>errno := EFAULT\<rparr>)
      | Str f \<Rightarrow> (case execve w f of
                   None \<Rightarrow> Done (Replaced f av envp) s'
                 | Some e \<Rightarrow> Cont (-1) (s'\<lparr>errno := e\<rparr>)))"

text \<open>\<open>free(nargv)\<close> at line 100 leaves no mark on the process state.\<close>

definition sr_execve :: "world \<Rightarrow> cptr \<Rightarrow> nat \<Rightarrow> cptr list \<Rightarrow> string list \<Rightarrow> proc \<Rightarrow> unit res" where
  "sr_execve w command p_argc p_argv p_envp s =
     bnd (do_execve w command p_argv p_envp s) (\<lambda>i s.
       if i = -1 \<or> errno s = ENOEXEC then
         (let s = log (Call_reallocarray (p_argc + 1)) s in
          if reallocarray_ok w then
            (let nargv = nargv_build command p_argc p_argv in
             bnd (do_execve w (Str ''/bin/sh'') (block_cells nargv) p_envp s)
               (\<lambda>_ s. Cont () s))
          else Cont () s)
       else Cont () s)"

subsection \<open>The capability calls\<close>

text \<open>
  Modelled from the spec: \<open>setpcap_effective\<close> is declared in \<open>capabilities.h\<close> and its
  body is not part of \<open>sr.c\<close>. It is the \<open>set_meta_privilege(bool)\<close> of the interface
  section: a call that succeeds (returns 0) puts the meta-privilege CAP_SETPCAP into the
  effective set when its argument is not zero and takes it out when the argument is
  zero; a call that fails changes nothing.
\<close>

definition setpcap_effective :: "world \<Rightarrow> int \<Rightarrow> proc \<Rightarrow> int \<times> proc" where
  "setpcap_effective w enable s =
     (let rc = setpcap_effective_rc w enable;
          s' = log (Call_setpcap_effective enable) s
      in if rc = 0 then (rc, s'\<lparr>eff_setpcap := (enable \<noteq> 0)\<rparr>) else (rc, s'))"

text \<open>
  libcap's \<open>cap_iab_set_proc\<close>: installs the inheritable, ambient and bounding sets in one
  call and leaves the effective set as it found it; a call that fails installs nothing.
\<close>

definition cap_iab_set_proc :: "world \<Rightarrow> cap_iab \<Rightarrow> proc \<Rightarrow> int \<times> proc" where
  "cap_iab_set_proc w iab s =
     (let rc = cap_iab_set_proc_rc w iab;
          s' = log (Call_cap_iab_set_proc iab) s
      in if rc = 0 then (rc, s'\<lparr>proc_iab := Some iab\<rparr>) else (rc, s'))"

text \<open>
  Modelled from the spec: \<open>activates_securebits\<close> is declared in \<open>capabilities.h\<close> and its
  body is not part of \<open>sr.c\<close>. It is the \<open>activate_no_root_lockdown()\<close> of the interface
  section: a call that succeeds (returns 0) turns the lockdown on.
\<close>

definition activates_securebits :: "world \<Rightarrow> proc \<Rightarrow> int \<times> proc" where
  "activates_securebits w s =
     (let rc = activates_securebits_rc w;
          s' = log Call_activates_securebits s
      in if rc = 0 then (rc, s'\<lparr>securebits := True\<rparr>) else (rc, s'))"

subsection \<open>\<open>main\<close>, lines 109-199\<close>

text \<open>\<open>main\<close> is given in five pieces, each a range of its lines.\<close>

text \<open>Lines 155-168: the four capability steps.\<close>

definition main_capabilities :: "world \<Rightarrow> cap_iab \<Rightarrow> options_t \<Rightarrow> proc \<Rightarrow> unit res" where
  "main_capabilities w iab options s =
     (case setpcap_effective w 1 s of (r, s) \<Rightarrow>
      bnd (if r \<noteq> 0 then error 1 0 ''Unable to setpcap capability'' s else Cont () s) (\<lambda>_ s.
      case cap_iab_set_proc w iab s of (r, s) \<Rightarrow>
      bnd (if r \<noteq> 0 then error 1 0 ''Unable to set capabilities'' s else Cont () s) (\<lambda>_ s.
      case setpcap_effective w 0 s of (r, s) \<Rightarrow>
      bnd (if r \<noteq> 0 then error 1 0 ''Unable to setpcap capability'' s else Cont () s) (\<lambda>_ s.
      if no_root options \<noteq> 0 then
        (case activates_securebits w s of (r, s) \<Rightarrow>
         if r \<noteq> 0 then error 1 0 ''Unable to activate securebits'' s else Cont () s)
      else Cont () s))))"

text \<open>
  Lines 179-190: command resolution. \<open>realpath\<close> sets \<open>errno\<close> when it fails; when it
  succeeds \<open>errno\<close> is what \<open>realpath_success_errno\<close> says. Line 180 reads \<open>errno\<close> without
  looking at the pointer returned.
\<close>

definition do_realpath :: "world \<Rightarrow> string \<Rightarrow> proc \<Rightarrow> cptr \<times> proc" where
  "do_realpath w name s =
     (let s' = log (Call_realpath (Str name)) s in
      case realpath w name of
        Inl e \<Rightarrow> (Null, s'\<lparr>errno := e\<rparr>)
      | Inr p \<Rightarrow> (Str p, case realpath_success_errno w of
                                 None \<Rightarrow> s'
                               | Some e \<Rightarrow> s'\<lparr>errno := e\<rparr>))"

definition main_resolve :: "world \<Rightarrow> string \<Rightarrow> proc \<Rightarrow> cptr res" where
  "main_resolve w arg0 s =
     (case do_realpath w arg0 s of (command, s) \<Rightarrow>
      bnd (if errno s = ENAMETOOLONG then error 1 0 ''Path too long'' s else Cont () s) (\<lambda>_ s.
      case access w command s of (r, s) \<Rightarrow>
      if r \<noteq> 0 then
        bnd (find_absolute_path_from_env w arg0 s) (\<lambda>command s.
        bnd (if command = Null then error 1 0 (arg0 @ '' : Command not found'') s else Cont () s)
          (\<lambda>_ s. Cont command s))
      else
        bnd (error 1 0 (arg0 @ '' : Command not found'') s) (\<lambda>_ s. Cont command s)))"

definition strnlen :: "string \<Rightarrow> nat \<Rightarrow> nat" where
  "strnlen str n = min (length str) n"

definition strndup :: "string \<Rightarrow> nat \<Rightarrow> string" where
  "strndup str n = take n str"

text \<open>
  Lines 169-191: environment, PATH, command resolution and launch. The calls of lines
  47-174 leave \<open>errno\<close> at \<open>errno_before_realpath\<close>.
\<close>

definition main_launch ::
  "world \<Rightarrow> options_t \<Rightarrow> string \<Rightarrow> nat \<Rightarrow> string list \<Rightarrow> proc \<Rightarrow> unit res" where
  "main_launch w options arg0 argc argv s =
     (case filter_env_vars w (environ w) (env_keep options) (env_check options) of (res, env) \<Rightarrow>
      (let s = log (Call_filter_env_vars (environ w) (env_keep options) (env_check options)) s in
       bnd (if res > 0 then error 1 0 ''Unable to filter environment variables'' s
            else Cont () s) (\<lambda>_ s.
       (let res = secure_path w (getenv_PATH w) (path options);
            s = log (Call_secure_path (getenv_PATH w) (path options)) s;
            s = s\<lparr>errno := errno_before_realpath w\<rparr>
        in bnd (if res = 0 then error 1 0 ''Unable to secure path'' s else Cont () s) (\<lambda>_ s.
           bnd (main_resolve w arg0 s) (\<lambda>command s.
           sr_execve w command argc (argv_array argv) env s))))))"

text \<open>
  Lines 147-195: the branch taken when \<open>-i\<close> is not given. Line 147 passes \<open>argv[0]\<close> to
  \<open>strnlen\<close> with no test of \<open>argc\<close>; \<open>strnlen\<close> reads through the pointer.
\<close>

definition main_command ::
  "world \<Rightarrow> string \<Rightarrow> string list \<Rightarrow> nat \<Rightarrow> string list \<Rightarrow> proc \<Rightarrow> unit res" where
  "main_command w user groups argc argv s =
     (case argv_read argv 0 of
        Null \<Rightarrow> Done (Crashed Null_dereference) s
      | Str arg0 \<Rightarrow>
          if strnlen arg0 PATH_MAX < PATH_MAX then
            (let command = strndup arg0 PATH_MAX;
                 s = log (Call_get_settings_from_config user groups command) s
             in case get_settings_from_config w user groups command of
                  None \<Rightarrow> error 1 0 ''Permission denied'' s
                | Some (iab, options) \<Rightarrow>
                    bnd (main_capabilities w iab options s) (\<lambda>_ s.
                    main_launch w options arg0 argc argv s))
          else error 1 0 ''Command too long'' s)"

text \<open>\<open>printf("%s", p)\<close>: glibc prints \<open>(null)\<close> for the null pointer.\<close>

definition fmt_s :: "cptr \<Rightarrow> string" where
  "fmt_s p = (case p of Null \<Rightarrow> ''(null)'' | Str str \<Rightarrow> str)"

definition usage :: "cptr \<Rightarrow> proc \<Rightarrow> proc" where
  "usage p s =
     log (Printf ''  -h, --help             Display this help'')
     (log (Printf ''  -v, --version          Display version'')
     (log (Printf ''  -i, --info             Display rights of executor'')
     (log (Printf ''  -r, --role <role>      Role to use'')
     (log (Printf ''Options:'')
     (log (Printf (''Usage: '' @ fmt_s p @ '' [options] [command [args]]'')) s)))))"

text \<open>Line 111: \<open>arguments_t arguments = {NULL, 0, 0, 0}\<close>.\<close>

definition arguments_init :: arguments_t where
  "arguments_init = \<lparr>role = Null, info = 0, version = 0, help_flag = 0\<rparr>"

text \<open>Lines 196-198: a run that comes back from its branch returns 0.\<close>

fun finish :: "unit res \<Rightarrow> outcome \<times> proc" where
  "finish (Done out s) = (out, s)"
| "finish (Cont _ s) = (Exited 0, s)"

definition main :: "world \<Rightarrow> string list \<Rightarrow> outcome \<times> proc" where
  "main w argv0 =
     (case parse_arguments w (length argv0) argv0 arguments_init of
        (ok, argc, argv, arguments) \<Rightarrow>
          if ok = 0 \<or> help_flag arguments \<noteq> 0 then
            (Exited 0, usage (argv_read argv 0) proc0)
          else if version arguments \<noteq> 0 then
            (Exited 0, log (Printf ''SR version 3.0'') proc0)
          else finish
            (let euid = geteuid w;
                 s = log (Call_get_username euid) proc0
             in case get_username w euid of
                  Null \<Rightarrow> error 1 0 ''Unable to retrieve the username of the executor'' s
                | Str user \<Rightarrow>
                   (let s = log (Call_pam_authenticate_user user) s in
                    bnd (if pam_authenticate_user w user = 0 then error 1 0 ''Authentication failed'' s
                         else Cont () s) (\<lambda>_ s.
                    (let egid = get_group_id w euid;
                         s = log (Call_get_group_names user egid) s
                     in case get_group_names w user egid of (r, groups) \<Rightarrow>
                        bnd (if r \<noteq> 0 then error 1 0 ''Unable to retrieve the groups of the executor'' s
                             else Cont () s) (\<lambda>_ s.
                        if info arguments \<noteq> 0 then
                          (if role arguments = Null
                           then Cont () (log (Call_print_rights user groups) s)
                           else Cont () (log (Call_print_rights_role (role arguments) user groups) s))
                        else main_command w user groups argc argv s))))))"

section \<open>Notions the properties are stated with\<close>

subsection \<open>The capability protocol\<close>

datatype cap_step = Acquire | Install | Release | Lockdown

text \<open>The capability-primitive calls among the events of a run.\<close>

fun cap_step_of :: "event \<Rightarrow> cap_step option" where
  "cap_step_of (Call_setpcap_effective enable) = Some (if enable \<noteq> 0 then Acquire else Release)"
| "cap_step_of (Call_cap_iab_set_proc iab) = Some Install"
| "cap_step_of Call_activates_securebits = Some Lockdown"
| "cap_step_of _ = None"

definition cap_steps :: "event list \<Rightarrow> cap_step list" where
  "cap_steps tr = List.map_filter cap_step_of tr"

text \<open>The call a step is made with, and whether the world lets it succeed.\<close>

fun call_of :: "cap_iab \<Rightarrow> cap_step \<Rightarrow> event" where
  "call_of iab Acquire = Call_setpcap_effective 1"
| "call_of iab Install = Call_cap_iab_set_proc iab"
| "call_of iab Release = Call_setpcap_effective 0"
| "call_of iab Lockdown = Call_activates_securebits"

fun step_ok :: "world \<Rightarrow> cap_iab \<Rightarrow> cap_step \<Rightarrow> bool" where
  "step_ok w iab Acquire = (setpcap_effective_rc w 1 = 0)"
| "step_ok w iab Install = (cap_iab_set_proc_rc w iab = 0)"
| "step_ok w iab Release = (setpcap_effective_rc w 0 = 0)"
| "step_ok w iab Lockdown = (activates_securebits_rc w = 0)"

text \<open>
  The protocol in the words of the specification (4.2): the steps are taken in the
  order acquire, install, release and, when \<open>no_root\<close> is set, lockdown; the first step
  that fails is the last one taken. \<open>protocol_run\<close> gives the steps taken and whether all
  of them succeeded.
\<close>

fun protocol_run :: "(cap_step \<Rightarrow> bool) \<Rightarrow> cap_step list \<Rightarrow> cap_step list \<times> bool" where
  "protocol_run ok [] = ([], True)"
| "protocol_run ok (x # xs) =
     (if ok x then (case protocol_run ok xs of (ys, b) \<Rightarrow> (x # ys, b)) else ([x], False))"

definition protocol_spec :: "(cap_step \<Rightarrow> bool) \<Rightarrow> bool \<Rightarrow> cap_step list \<times> bool" where
  "protocol_spec ok lockdown =
     protocol_run ok ([Acquire, Install, Release] @ (if lockdown then [Lockdown] else []))"

text \<open>
  The runs that get as far as line 155: the options parse, none of \<open>-h\<close>, \<open>-v\<close>, \<open>-i\<close> is
  given, the user is found and authenticated, the groups are found, a command of
  admissible length is given and the policy grants \<open>iab\<close> and \<open>options\<close> for it.
\<close>

definition reaches_capabilities ::
  "world \<Rightarrow> string list \<Rightarrow> string \<Rightarrow> string list \<Rightarrow> string \<Rightarrow> cap_iab \<Rightarrow> options_t \<Rightarrow> bool" where
  "reaches_capabilities w argv0 user groups arg0 iab options =
     (fst (getopt_loop (getopt_seq w) arguments_init) = 1 \<and>
      help_flag (snd (getopt_loop (getopt_seq w) arguments_init)) = 0 \<and>
      version (snd (getopt_loop (getopt_seq w) arguments_init)) = 0 \<and>
      info (snd (getopt_loop (getopt_seq w) arguments_init)) = 0 \<and>
      get_username w (geteuid w) = Str user \<and>
      pam_authenticate_user w user \<noteq> 0 \<and>
      get_group_names w user (get_group_id w (geteuid w)) = (0, groups) \<and>
      argv_read (drop (optind w) argv0) 0 = Str arg0 \<and>
      length arg0 < PATH_MAX \<and>
      get_settings_from_config w user groups arg0 = Some (iab, options))"

text \<open>The events of such a run before line 155.\<close>

definition events_before_capabilities :: "world \<Rightarrow> string \<Rightarrow> string list \<Rightarrow> string \<Rightarrow> event list" where
  "events_before_capabilities w user groups arg0 =
     [Call_get_username (geteuid w),
      Call_pam_authenticate_user user,
      Call_get_group_names user (get_group_id w (geteuid w)),
      Call_get_settings_from_config user groups arg0]"

text \<open>
  Two process states with the same capability calls behind them and the same capability
  state.
\<close>

definition caps_kept :: "proc \<Rightarrow> proc \<Rightarrow> bool" where
  "caps_kept s s' =
     (cap_steps (trace s') = cap_steps (trace s) \<and> eff_setpcap s' = eff_setpcap s \<and>
      proc_iab s' = proc_iab s \<and> securebits s' = securebits s)"

text \<open>The diagnostic lines of a run: the messages of its \<open>error\<close> calls.\<close>

definition diagnostics :: "event list \<Rightarrow> string list" where
  "diagnostics tr = List.map_filter (\<lambda>e. case e of Error msg \<Rightarrow> Some msg | _ \<Rightarrow> None) tr"

subsection \<open>The policy of the specification\<close>

text \<open>
  Modelled from the spec: the policy store behind \<open>get_settings_from_config\<close>
  (\<open>xml_manager.h\<close>) is not part of \<open>sr.c\<close>. Section 4.1: the candidates are the roles that
  grant access to the identity directly or through one of its groups; with a role hint
  the candidates are that named role only; among the rules of the candidates an exact
  match of the command comes before a pattern match, and the first defined wins within
  a tier; no match is a denial.
\<close>

datatype matcher = Exact string | Pattern "string \<Rightarrow> bool"

record rule =
  rule_command :: matcher
  rule_iab :: cap_iab
  rule_options :: options_t

record role_entry =
  role_name :: string
  role_users :: "string list"
  role_groups :: "string list"
  role_rules :: "rule list"

datatype decision = Granted cap_iab options_t | Denied

definition role_open_to :: "role_entry \<Rightarrow> string \<Rightarrow> string list \<Rightarrow> bool" where
  "role_open_to r user groups =
     (user \<in> set (role_users r) \<or> set groups \<inter> set (role_groups r) \<noteq> {})"

definition exact_match :: "string \<Rightarrow> rule \<Rightarrow> bool" where
  "exact_match command q = (case rule_command q of Exact p \<Rightarrow> p = command | Pattern f \<Rightarrow> False)"

definition pattern_match :: "string \<Rightarrow> rule \<Rightarrow> bool" where
  "pattern_match command q = (case rule_command q of Exact p \<Rightarrow> False | Pattern f \<Rightarrow> f command)"

definition spec_resolve ::
  "role_entry list \<Rightarrow> string \<Rightarrow> string list \<Rightarrow> string \<Rightarrow> string option \<Rightarrow> decision" where
  "spec_resolve policy user groups command role_hint =
     (let candidates =
            filter (\<lambda>r. role_open_to r user groups \<and>
                        (case role_hint of None \<Rightarrow> True | Some h \<Rightarrow> role_name r = h)) policy;
          rules = concat (map role_rules candidates)
      in case filter (exact_match command) rules @ filter (pattern_match command) rules of
           [] \<Rightarrow> Denied
         | q # _ \<Rightarrow> Granted (rule_iab q) (rule_options q))"

text \<open>The answer \<open>get_settings_from_config\<close> gives for a decision.\<close>

definition settings_of :: "decision \<Rightarrow> (cap_iab \<times> options_t) option" where
  "settings_of d = (case d of Denied \<Rightarrow> None | Granted iab options \<Rightarrow> Some (iab, options))"

section \<open>Concrete runs\<close>

definition cap_net :: cap_iab where
  "cap_net = \<lparr>inheritable = [''CAP_NET_RAW''], ambient = [''CAP_NET_RAW''], bounding = [''CAP_NET_RAW'']\<rparr>"

definition cap_admin :: cap_iab where
  "cap_admin = \<lparr>inheritable = [''CAP_SYS_ADMIN''], ambient = [''CAP_SYS_ADMIN''], bounding = [''CAP_SYS_ADMIN'']\<rparr>"

definition opts_plain :: options_t where
  "opts_plain = \<lparr>no_root = 0, env_keep = [''TERM''], env_check = [], path = ''/usr/bin:/bin''\<rparr>"

definition opts_no_root :: options_t where
  "opts_no_root = \<lparr>no_root = 1, env_keep = [''TERM''], env_check = [], path = ''/usr/bin:/bin''\<rparr>"

text \<open>
  \<open>sr ls -l\<close> by alice (group \<open>ops\<close>): every call succeeds, \<open>ls\<close> is not a path of the
  current directory, \<open>/bin/ls\<close> is the only executable, the policy grants \<open>cap_net\<close> with
  \<open>no_root\<close>, and the \<open>execve\<close> of \<open>/bin/ls\<close> replaces the image.
\<close>

definition world_ls :: world where
  "world_ls =
     \<lparr>getopt_seq = [], optind = 1, geteuid = 1000,
      get_username = (\<lambda>uid. Str ''alice''),
      pam_authenticate_user = (\<lambda>user. 1),
      get_group_id = (\<lambda>uid. 1000),
      get_group_names = (\<lambda>user gid. (0, [''ops''])),
      get_settings_from_config = (\<lambda>user groups command. Some (cap_net, opts_no_root)),
      setpcap_effective_rc = (\<lambda>enable. 0),
      cap_iab_set_proc_rc = (\<lambda>iab. 0),
      activates_securebits_rc = 0,
      environ = [''TERM=xterm'', ''EVIL=1''],
      filter_env_vars = (\<lambda>env keep check. (0, [''TERM=xterm''])),
      getenv_PATH = Str ''/tmp'',
      secure_path = (\<lambda>p policy. 1),
      getenv_PATH_secured = Str ''/usr/bin:/bin'',
      errno_before_realpath = 0,
      realpath = (\<lambda>name. Inl ENOENT),
      realpath_success_errno = None,
      strdup_ok = True,
      access_X_OK = (\<lambda>p. if p = ''/bin/ls'' then None else Some ENOENT),
      execve = (\<lambda>p. None),
      reallocarray_ok = True\<rparr>"

definition argv_ls :: "string list" where
  "argv_ls = [''sr'', ''ls'', ''-l'']"

text \<open>The same invocation when authentication is refused.\<close>

definition world_auth_refused :: world where
  "world_auth_refused = world_ls\<lparr>pam_authenticate_user := (\<lambda>user. 0)\<rparr>"

text \<open>The same invocation when one capability call fails.\<close>

definition world_install_fails :: world where
  "world_install_fails = world_ls\<lparr>cap_iab_set_proc_rc := (\<lambda>iab. -1)\<rparr>"

definition world_release_fails :: world where
  "world_release_fails = world_ls\<lparr>setpcap_effective_rc := (\<lambda>enable. if enable = 0 then -1 else 0)\<rparr>"

definition world_lockdown_fails :: world where
  "world_lockdown_fails = world_ls\<lparr>activates_securebits_rc := -1\<rparr>"

text \<open>
  The same invocation when no \<open>execve\<close> succeeds (permission denied), and when only the
  one of \<open>/bin/sh\<close> does.
\<close>

definition world_exec_fails :: world where
  "world_exec_fails = world_ls\<lparr>execve := (\<lambda>p. Some EACCES)\<rparr>"

definition world_exec_eacces :: world where
  "world_exec_eacces = world_ls\<lparr>execve := (\<lambda>p. if p = ''/bin/sh'' then None else Some EACCES)\<rparr>"

text \<open>
  \<open>sr /bin/ls -l\<close>: the command is given by its absolute path, which \<open>realpath\<close> resolves
  to itself and which is executable.
\<close>

definition world_abs :: world where
  "world_abs = world_ls\<lparr>realpath := (\<lambda>name. if name = ''/bin/ls'' then Inr ''/bin/ls'' else Inl ENOENT)\<rparr>"

definition argv_abs :: "string list" where
  "argv_abs = [''sr'', ''/bin/ls'', ''-l'']"

text \<open>
  The same, when an earlier library call of the run has left \<open>errno\<close> at ENAMETOOLONG
  (\<open>realpath\<close> itself succeeds).
\<close>

definition world_stale_errno :: world where
  "world_stale_errno = world_abs\<lparr>errno_before_realpath := ENAMETOOLONG\<rparr>"

text \<open>\<open>sr\<close> with no command.\<close>

definition argv_none :: "string list" where
  "argv_none = [''sr'']"

text \<open>
  \<open>sr -r netops ls -l\<close> under a policy with two roles open to alice for \<open>ls\<close>: \<open>admin\<close>,
  defined first, grants \<open>cap_admin\<close>; \<open>netops\<close>, through the group \<open>ops\<close>, grants \<open>cap_net\<close>
  with \<open>no_root\<close>. \<open>get_settings_from_config\<close> receives no role and answers as the policy
  does without a hint.
\<close>

definition policy_two_roles :: "role_entry list" where
  "policy_two_roles =
     [\<lparr>role_name = ''admin'', role_users = [''alice''], role_groups = [],
       role_rules = [\<lparr>rule_command = Exact ''ls'', rule_iab = cap_admin, rule_options = opts_plain\<rparr>]\<rparr>,
      \<lparr>role_name = ''netops'', role_users = [], role_groups = [''ops''],
       role_rules = [\<lparr>rule_command = Exact ''ls'', rule_iab = cap_net, rule_options = opts_no_root\<rparr>]\<rparr>]"

definition world_roles :: world where
  "world_roles =
     world_ls\<lparr>getopt_seq := [(CHR ''r'', Str ''netops'')], optind := 3,
              get_settings_from_config :=
                (\<lambda>user groups command.
                   settings_of (spec_resolve policy_two_roles user groups command None))\<rparr>"

definition argv_roles :: "string list" where
  "argv_roles = [''sr'', ''-r'', ''netops'', ''ls'', ''-l'']"

section \<open>Properties\<close>

subsection \<open>Calls that are not capability calls leave the capability state alone\<close>

lemma cap_steps_simps:
  "cap_steps [] = []"
  "cap_steps (e # es) = (case cap_step_of e of None \<Rightarrow> cap_steps es | Some c \<Rightarrow> c # cap_steps es)"
  "cap_steps (xs @ ys) = cap_steps xs @ cap_steps ys"
  by (auto simp: cap_steps_def List.map_filter_def split: option.splits)

lemma caps_kept_refl: "caps_kept s s"
  by (simp add: caps_kept_def cap_steps_simps)

lemma caps_kept_trans: "caps_kept s s' \<Longrightarrow> caps_kept s' s'' \<Longrightarrow> caps_kept s s''"
  by (simp add: caps_kept_def cap_steps_simps)

lemma access_kept: "access w p s = (r, s') \<Longrightarrow> caps_kept s s'"
  by (auto simp: access_def caps_kept_def cap_steps_simps log_def Let_def split: cptr.splits option.splits)

lemma path_loop_kept: "path_loop w file ts s = (r, s') \<Longrightarrow> caps_kept s s'"
proof (induction ts arbitrary: s)
  case Nil
  then show ?case by (simp add: caps_kept_refl)
next
  case (Cons token rest)
  obtain r1 s1 where a: "access w (Str (token @ ''/'' @ file)) s = (r1, s1)"
    by (cases "access w (Str (token @ ''/'' @ file)) s")
  show ?case
  proof (cases "r1 = 0")
    case True
    with Cons.prems a show ?thesis by (auto dest: access_kept)
  next
    case False
    with Cons.prems a have "path_loop w file rest s1 = (r, s')" by simp
    then have "caps_kept s1 s'" by (rule Cons.IH)
    with access_kept [OF a] show ?thesis by (rule caps_kept_trans)
  qed
qed

lemma find_kept: "caps_kept s (final_proc (find_absolute_path_from_env w file s))"
  by (auto simp: find_absolute_path_from_env_def caps_kept_refl split: cptr.splits prod.splits
      dest: path_loop_kept)

lemma sr_execve_kept: "caps_kept s (final_proc (sr_execve w c n av envp s))"
  by (simp add: sr_execve_def do_execve_def caps_kept_def cap_steps_simps log_def Let_def
      split: cptr.splits option.splits)

lemma main_resolve_kept: "caps_kept s (final_proc (main_resolve w arg0 s))"
proof -
  obtain c s1 where rp: "do_realpath w arg0 s = (c, s1)"
    by (cases "do_realpath w arg0 s")
  then have k1: "caps_kept s s1"
    by (auto simp: do_realpath_def caps_kept_def cap_steps_simps log_def Let_def split: sum.splits option.splits)
  obtain r s2 where ac: "access w c s1 = (r, s2)"
    by (cases "access w c s1")
  have "caps_kept s1 s2" using ac by (rule access_kept)
  with k1 have k12: "caps_kept s s2" by (rule caps_kept_trans)
  have k3: "caps_kept s2 (final_proc (find_absolute_path_from_env w arg0 s2))"
    by (rule find_kept)
  show ?thesis
    using rp ac k1 k12 k3
    apply (simp add: main_resolve_def)
    apply (cases "find_absolute_path_from_env w arg0 s2")
     apply (auto simp: error_def log_def caps_kept_def cap_steps_simps)
    done
qed

lemma main_launch_kept: "caps_kept s (final_proc (main_launch w options arg0 argc argv s))"
proof -
  obtain res env where
    f: "filter_env_vars w (environ w) (env_keep options) (env_check options) = (res, env)"
    by (cases "filter_env_vars w (environ w) (env_keep options) (env_check options)")
  define s2 where
    "s2 = (log (Call_secure_path (getenv_PATH w) (path options))
            (log (Call_filter_env_vars (environ w) (env_keep options) (env_check options)) s))
          \<lparr>errno := errno_before_realpath w\<rparr>"
  have k2: "caps_kept s s2"
    by (simp add: s2_def caps_kept_def cap_steps_simps log_def)
  have k3: "caps_kept s2 (final_proc (main_resolve w arg0 s2))"
    by (rule main_resolve_kept)
  show ?thesis
  proof (cases "main_resolve w arg0 s2")
    case (Done out s3)
    with k2 k3 f show ?thesis
      by (auto simp: main_launch_def Let_def error_def s2_def log_def caps_kept_def cap_steps_simps)
  next
    case (Cont c s3)
    have "caps_kept s3 (final_proc (sr_execve w c argc (argv_array argv) env s3))"
      by (rule sr_execve_kept)
    with Cont k2 k3 f show ?thesis
      by (auto simp: main_launch_def Let_def error_def s2_def log_def caps_kept_def cap_steps_simps)
  qed
qed

subsection \<open>The run up to line 155, and the four capability steps\<close>

text \<open>
  A run that gets to line 155 was given a command: \<open>optind\<close> is below \<open>argc\<close>, so the shift
  of \<open>parse_arguments\<close> stays inside the argument array.
\<close>

lemma reaches_capabilities_has_command:
  "reaches_capabilities w argv0 user groups arg0 iab options \<Longrightarrow> optind w < length argv0"
  by (auto simp: reaches_capabilities_def argv_read_def split: if_splits)

lemma main_reaches:
  assumes "reaches_capabilities w argv0 user groups arg0 iab options"
  shows "main w argv0 =
           finish (bnd (main_capabilities w iab options
                          (proc0\<lparr>trace := events_before_capabilities w user groups arg0\<rparr>))
                       (\<lambda>_ s. main_launch w options arg0 (length argv0 - optind w)
                                 (drop (optind w) argv0) s))"
proof -
  obtain r a where g: "getopt_loop (getopt_seq w) arguments_init = (r, a)"
    by (cases "getopt_loop (getopt_seq w) arguments_init")
  with assms have flags: "r = 1" "help_flag a = 0" "version a = 0" "info a = 0"
    by (simp_all add: reaches_capabilities_def)
  from assms have rest:
    "get_username w (geteuid w) = Str user" "pam_authenticate_user w user \<noteq> 0"
    "get_group_names w user (get_group_id w (geteuid w)) = (0, groups)"
    "argv_read (drop (optind w) argv0) 0 = Str arg0" "length arg0 < PATH_MAX"
    "get_settings_from_config w user groups arg0 = Some (iab, options)"
    by (simp_all add: reaches_capabilities_def)
  from rest(5) have tk: "take PATH_MAX arg0 = arg0"
    by simp
  show ?thesis
    by (simp add: main_def parse_arguments_def g flags rest tk main_command_def
        events_before_capabilities_def log_def proc0_def strnlen_def strndup_def Let_def)
qed

lemma main_capabilities_fail:
  assumes "\<not> snd (protocol_spec (step_ok w iab) (no_root options \<noteq> 0))"
  shows "\<exists>msg s'. main_capabilities w iab options s = Done (Exited 1) s' \<and>
           trace s' = trace s @ map (call_of iab)
                        (fst (protocol_spec (step_ok w iab) (no_root options \<noteq> 0))) @ [Error msg] \<and>
           eff_setpcap s' =
             (if last (fst (protocol_spec (step_ok w iab) (no_root options \<noteq> 0))) = Acquire
              then eff_setpcap s
              else last (fst (protocol_spec (step_ok w iab) (no_root options \<noteq> 0)))
                     \<in> {Install, Release})"
  using assms
  by (auto simp: main_capabilities_def protocol_spec_def setpcap_effective_def
      cap_iab_set_proc_def activates_securebits_def error_def log_def Let_def split: if_splits)

lemma main_capabilities_ok:
  assumes "snd (protocol_spec (step_ok w iab) (no_root options \<noteq> 0))"
  shows "\<exists>s'. main_capabilities w iab options s = Cont () s' \<and>
           trace s' = trace s @ map (call_of iab)
                        (fst (protocol_spec (step_ok w iab) (no_root options \<noteq> 0))) \<and>
           \<not> eff_setpcap s' \<and> proc_iab s' = Some iab \<and>
           securebits s' = (securebits s \<or> no_root options \<noteq> 0)"
  using assms
  by (auto simp: main_capabilities_def protocol_spec_def setpcap_effective_def
      cap_iab_set_proc_def activates_securebits_def error_def log_def Let_def split: if_splits)

lemma cap_steps_calls: "cap_steps (map (call_of iab) xs) = xs"
proof (induction xs)
  case Nil
  show ?case by (simp add: cap_steps_simps)
next
  case (Cons x xs)
  then show ?case by (cases x) (simp_all add: cap_steps_simps)
qed

lemma cap_steps_before: "cap_steps (events_before_capabilities w user groups arg0) = []"
  by (simp add: events_before_capabilities_def cap_steps_simps)

lemma protocol_spec_shape:
  "prefix (fst (protocol_spec ok l)) [Acquire, Install, Release, Lockdown]"
  "(Lockdown \<in> set (fst (protocol_spec ok l))) = (l \<and> ok Acquire \<and> ok Install \<and> ok Release)"
  by (auto simp: protocol_spec_def)

lemma main_after_capabilities:
  assumes r: "reaches_capabilities w argv0 user groups arg0 iab options"
  shows "cap_steps (trace (snd (main w argv0))) = fst (protocol_spec (step_ok w iab) (no_root options \<noteq> 0))"
proof (cases "snd (protocol_spec (step_ok w iab) (no_root options \<noteq> 0))")
  case True
  from main_capabilities_ok [OF True, of "proc0\<lparr>trace := events_before_capabilities w user groups arg0\<rparr>"]
  obtain s' where c: "main_capabilities w iab options (proc0\<lparr>trace := events_before_capabilities w user groups arg0\<rparr>) = Cont () s'"
    and tr: "trace s' = events_before_capabilities w user groups arg0 @ map (call_of iab)
                        (fst (protocol_spec (step_ok w iab) (no_root options \<noteq> 0)))"
    by auto
  have k: "caps_kept s' (final_proc (main_launch w options arg0 (length argv0 - optind w) (drop (optind w) argv0) s'))"
    by (rule main_launch_kept)
  have "snd (main w argv0) = final_proc (main_launch w options arg0 (length argv0 - optind w) (drop (optind w) argv0) s')"
    by (cases "main_launch w options arg0 (length argv0 - optind w) (drop (optind w) argv0) s'")
       (simp_all add: main_reaches [OF r] c)
  with k tr show ?thesis
    by (simp add: caps_kept_def cap_steps_simps cap_steps_calls cap_steps_before)
next
  case False
  from main_capabilities_fail [OF False, of "proc0\<lparr>trace := events_before_capabilities w user groups arg0\<rparr>"]
  show ?thesis
    by (auto simp: main_reaches [OF r] cap_steps_calls cap_steps_simps cap_steps_before)
qed

lemma main_after_capabilities_state:
  assumes r: "reaches_capabilities w argv0 user groups arg0 iab options"
      and ok: "snd (protocol_spec (step_ok w iab) (no_root options \<noteq> 0))"
  shows "\<not> eff_setpcap (snd (main w argv0)) \<and> proc_iab (snd (main w argv0)) = Some iab \<and>
         securebits (snd (main w argv0)) = (no_root options \<noteq> 0)"
proof -
  let ?s = "proc0\<lparr>trace := events_before_capabilities w user groups arg0\<rparr>"
  from main_capabilities_ok [OF ok, of ?s]
  obtain s' where c: "main_capabilities w iab options ?s = Cont () s'"
    and st: "\<not> eff_setpcap s'" "proc_iab s' = Some iab"
            "securebits s' = (securebits ?s \<or> no_root options \<noteq> 0)"
    by auto
  have k: "caps_kept s' (final_proc (main_launch w options arg0 (length argv0 - optind w)
                                       (drop (optind w) argv0) s'))"
    by (rule main_launch_kept)
  have "snd (main w argv0) =
          final_proc (main_launch w options arg0 (length argv0 - optind w) (drop (optind w) argv0) s')"
    by (cases "main_launch w options arg0 (length argv0 - optind w) (drop (optind w) argv0) s'")
       (simp_all add: main_reaches [OF r] c)
  with k st show ?thesis
    by (simp add: caps_kept_def cap_steps_simps proc0_def)
qed

lemma reaches_ls:
  "reaches_capabilities (world_ls\<lparr>setpcap_effective_rc := f, cap_iab_set_proc_rc := g,
      activates_securebits_rc := h\<rparr>) argv_ls ''alice'' [''ops''] ''ls'' cap_net opts_no_root"
  by (simp add: reaches_capabilities_def world_ls_def argv_ls_def arguments_init_def
      argv_read_def PATH_MAX_def)

subsection \<open>The order of the capability steps\<close>

text \<open>
  C6. In every run that gets to the capability transition, the capability calls made
  are exactly the steps the protocol of the specification takes: acquire, install (one
  call), release, and lockdown after those and only when \<open>no_root\<close> is set, stopping at
  the first step that fails. When a step fails the run consists of the calls before the
  transition, the steps up to the failing one and one diagnostic, and the process
  exits with status 1: no step is repeated and none follows. When every step succeeds
  the run ends (by \<open>exit\<close> or in the new image) with CAP_SETPCAP out of the effective
  set, the granted triple installed, and the lockdown on exactly when \<open>no_root\<close> is set.
\<close>

theorem capability_protocol_order:
  assumes "reaches_capabilities w argv0 user groups arg0 iab options"
  shows "cap_steps (trace (snd (main w argv0))) =
           fst (protocol_spec (step_ok w iab) (no_root options \<noteq> 0)) \<and>
         prefix (cap_steps (trace (snd (main w argv0)))) [Acquire, Install, Release, Lockdown] \<and>
         (Lockdown \<in> set (cap_steps (trace (snd (main w argv0)))) \<longleftrightarrow>
            no_root options \<noteq> 0 \<and> step_ok w iab Acquire \<and> step_ok w iab Install \<and>
            step_ok w iab Release) \<and>
         (\<not> snd (protocol_spec (step_ok w iab) (no_root options \<noteq> 0)) \<longrightarrow>
            fst (main w argv0) = Exited 1 \<and>
            (\<exists>msg. trace (snd (main w argv0)) =
               events_before_capabilities w user groups arg0 @
               map (call_of iab) (fst (protocol_spec (step_ok w iab) (no_root options \<noteq> 0))) @
               [Error msg])) \<and>
         (snd (protocol_spec (step_ok w iab) (no_root options \<noteq> 0)) \<longrightarrow>
            \<not> eff_setpcap (snd (main w argv0)) \<and> proc_iab (snd (main w argv0)) = Some iab \<and>
            securebits (snd (main w argv0)) = (no_root options \<noteq> 0))"
proof -
  have 1: "cap_steps (trace (snd (main w argv0))) =
           fst (protocol_spec (step_ok w iab) (no_root options \<noteq> 0))"
    using assms by (rule main_after_capabilities)
  have 4: "fst (main w argv0) = Exited 1 \<and>
            (\<exists>msg. trace (snd (main w argv0)) =
               events_before_capabilities w user groups arg0 @
               map (call_of iab) (fst (protocol_spec (step_ok w iab) (no_root options \<noteq> 0))) @
               [Error msg])"
    if f: "\<not> snd (protocol_spec (step_ok w iab) (no_root options \<noteq> 0))"
    using main_capabilities_fail [OF f, of "proc0\<lparr>trace := events_before_capabilities w user groups arg0\<rparr>"]
    by (auto simp: main_reaches [OF assms])
  have 5: "\<not> eff_setpcap (snd (main w argv0)) \<and> proc_iab (snd (main w argv0)) = Some iab \<and>
           securebits (snd (main w argv0)) = (no_root options \<noteq> 0)"
    if "snd (protocol_spec (step_ok w iab) (no_root options \<noteq> 0))"
    using assms that by (rule main_after_capabilities_state)
  show ?thesis
    using 1 4 5 by (simp add: protocol_spec_shape)
qed

theorem capability_protocol_order_witness:
  "reaches_capabilities world_release_fails argv_ls ''alice'' [''ops''] ''ls'' cap_net opts_no_root \<and>
   \<not> snd (protocol_spec (step_ok world_release_fails cap_net) (no_root opts_no_root \<noteq> 0)) \<and>
   cap_steps (trace (snd (main world_release_fails argv_ls))) = [Acquire, Install, Release] \<and>
   Lockdown \<notin> set (cap_steps (trace (snd (main world_release_fails argv_ls)))) \<and>
   fst (main world_release_fails argv_ls) = Exited 1"
proof -
  have r: "reaches_capabilities world_release_fails argv_ls ''alice'' [''ops''] ''ls'' cap_net
             opts_no_root"
    using reaches_ls [where f = "\<lambda>enable. if enable = 0 then -1 else 0" and g = "\<lambda>iab. 0" and h = 0]
    by (simp add: world_release_fails_def world_ls_def)
  have p: "protocol_spec (step_ok world_release_fails cap_net) (no_root opts_no_root \<noteq> 0) =
             ([Acquire, Install, Release], False)"
    by (simp add: protocol_spec_def world_release_fails_def world_ls_def opts_no_root_def)
  show ?thesis
    using capability_protocol_order [OF r] r p by simp
qed

subsection \<open>The meta-privilege on the failure branches\<close>

text \<open>
  C2, as the code has it. On every failure branch of the capability transition the
  process exits at once with status 1, and CAP_SETPCAP is in the effective set at that
  exit exactly when the last capability call made, the failing one, is the installation
  of the triple or the release: it is absent after a failed acquisition and after a
  failed lockdown, and still present after a failed installation, since no release is
  attempted before \<open>exit\<close>.
\<close>

theorem capability_failure_meta_privilege:
  assumes "reaches_capabilities w argv0 user groups arg0 iab options"
      and "\<not> snd (protocol_spec (step_ok w iab) (no_root options \<noteq> 0))"
  shows "fst (main w argv0) = Exited 1 \<and>
         (eff_setpcap (snd (main w argv0)) \<longleftrightarrow>
            last (cap_steps (trace (snd (main w argv0)))) \<in> {Install, Release})"
proof -
  let ?s = "proc0\<lparr>trace := events_before_capabilities w user groups arg0\<rparr>"
  let ?steps = "fst (protocol_spec (step_ok w iab) (no_root options \<noteq> 0))"
  from main_capabilities_fail [OF assms(2), of ?s]
  obtain msg s' where d: "main_capabilities w iab options ?s = Done (Exited 1) s'"
    and tr: "trace s' = trace ?s @ map (call_of iab) ?steps @ [Error msg]"
    and e: "eff_setpcap s' = (if last ?steps = Acquire then eff_setpcap ?s
                              else last ?steps \<in> {Install, Release})"
    by blast
  have m: "main w argv0 = (Exited 1, s')"
    by (simp add: main_reaches [OF assms(1)] d)
  have c: "cap_steps (trace s') = ?steps"
    by (simp add: tr cap_steps_calls cap_steps_simps cap_steps_before)
  have "\<not> eff_setpcap ?s"
    by (simp add: proc0_def)
  with e have "eff_setpcap s' \<longleftrightarrow> last ?steps \<in> {Install, Release}"
    by auto
  with m c show ?thesis
    by simp
qed

theorem capability_failure_meta_privilege_witness:
  "reaches_capabilities world_lockdown_fails argv_ls ''alice'' [''ops''] ''ls'' cap_net opts_no_root \<and>
   \<not> snd (protocol_spec (step_ok world_lockdown_fails cap_net) (no_root opts_no_root \<noteq> 0)) \<and>
   fst (main world_lockdown_fails argv_ls) = Exited 1 \<and>
   \<not> eff_setpcap (snd (main world_lockdown_fails argv_ls))"
proof -
  have r: "reaches_capabilities world_lockdown_fails argv_ls ''alice'' [''ops''] ''ls'' cap_net
             opts_no_root"
    using reaches_ls [where f = "\<lambda>enable. 0" and g = "\<lambda>iab. 0" and h = "-1"]
    by (simp add: world_lockdown_fails_def world_ls_def)
  have p: "protocol_spec (step_ok world_lockdown_fails cap_net) (no_root opts_no_root \<noteq> 0) =
             ([Acquire, Install, Release, Lockdown], False)"
    by (simp add: protocol_spec_def world_lockdown_fails_def world_ls_def opts_no_root_def)
  then have f: "\<not> snd (protocol_spec (step_ok world_lockdown_fails cap_net)
                        (no_root opts_no_root \<noteq> 0))"
    by simp
  have c: "cap_steps (trace (snd (main world_lockdown_fails argv_ls))) =
             [Acquire, Install, Release, Lockdown]"
    using main_after_capabilities [OF r] p by simp
  show ?thesis
    using capability_failure_meta_privilege [OF r f] r f c by simp
qed

text \<open>
  The claim as stated fails when the installation of the triple fails: the process
  exits with "Unable to set capabilities" and CAP_SETPCAP still in its effective set.
\<close>

theorem capability_failure_counterexample:
  "fst (main world_install_fails argv_ls) = Exited 1 \<and>
   last (trace (snd (main world_install_fails argv_ls))) = Error ''Unable to set capabilities'' \<and>
   eff_setpcap (snd (main world_install_fails argv_ls))"
  by (simp add: main_def parse_arguments_def world_install_fails_def world_ls_def argv_ls_def
      arguments_init_def argv_read_def main_command_def strnlen_def strndup_def PATH_MAX_def
      main_capabilities_def setpcap_effective_def cap_iab_set_proc_def error_def log_def proc0_def
      opts_no_root_def cap_net_def)

subsection \<open>Authentication comes before every capability call\<close>

text \<open>
  C7. When authentication of the resolved user name fails, the run makes no call of a
  capability primitive (no \<open>setpcap_effective\<close>, no \<open>cap_iab_set_proc\<close>, no
  \<open>activates_securebits\<close>), ends by \<open>exit\<close>, and leaves the capability state of the
  process as it was at start. When the options select neither help nor version, the
  whole run is: look the user up, authenticate, print "Authentication failed", exit 1.
\<close>

theorem auth_failure_no_capability_call:
  assumes "get_username w (geteuid w) = Str user" and "pam_authenticate_user w user = 0"
  shows "cap_steps (trace (snd (main w argv))) = [] \<and>
         (\<exists>st. fst (main w argv) = Exited st) \<and>
         \<not> eff_setpcap (snd (main w argv)) \<and> proc_iab (snd (main w argv)) = None \<and>
         \<not> securebits (snd (main w argv)) \<and>
         (fst (getopt_loop (getopt_seq w) arguments_init) = 1 \<and>
          help_flag (snd (getopt_loop (getopt_seq w) arguments_init)) = 0 \<and>
          version (snd (getopt_loop (getopt_seq w) arguments_init)) = 0 \<longrightarrow>
          main w argv =
            (Exited 1, proc0\<lparr>trace := [Call_get_username (geteuid w),
                                        Call_pam_authenticate_user user,
                                        Error ''Authentication failed'']\<rparr>))"
  using assms
  by (simp add: main_def parse_arguments_def usage_def log_def error_def proc0_def
      cap_steps_simps split: prod.splits)

theorem auth_failure_no_capability_call_witness:
  "get_username world_auth_refused (geteuid world_auth_refused) = Str ''alice'' \<and>
   pam_authenticate_user world_auth_refused ''alice'' = 0 \<and>
   cap_steps (trace (snd (main world_auth_refused argv_ls))) = [] \<and>
   main world_auth_refused argv_ls =
     (Exited 1, proc0\<lparr>trace := [Call_get_username 1000,
                                 Call_pam_authenticate_user ''alice'',
                                 Error ''Authentication failed'']\<rparr>)"
proof -
  have u: "get_username world_auth_refused (geteuid world_auth_refused) = Str ''alice''"
    by (simp add: world_auth_refused_def world_ls_def)
  have p: "pam_authenticate_user world_auth_refused ''alice'' = 0"
    by (simp add: world_auth_refused_def world_ls_def)
  have g: "getopt_seq world_auth_refused = []" "geteuid world_auth_refused = 1000"
    by (simp_all add: world_auth_refused_def world_ls_def)
  show ?thesis
    using auth_failure_no_capability_call [OF u p, of argv_ls] u p
    by (simp add: g arguments_init_def cap_steps_simps)
qed

subsection \<open>Command resolution\<close>

text \<open>
  Lines 183-190 as written: when \<open>realpath\<close> succeeds and the resolved path is
  executable, the \<open>else\<close> branch of line 188 is taken and the run ends with "Command not
  found"; the PATH search is the branch of a failed \<open>access\<close>.
\<close>

lemma main_resolve_canonical_executable:
  assumes "do_realpath w arg0 s = (Str p, s1)" and "errno s1 \<noteq> ENAMETOOLONG"
      and "access_X_OK w p = None"
  shows "main_resolve w arg0 s =
           Done (Exited 1)
             (log (Error (arg0 @ '' : Command not found'')) (log (Call_access (Str p)) s1))"
  using assms
  by (simp add: main_resolve_def access_def error_def Let_def)

text \<open>
  C1. \<open>sr /bin/ls -l\<close>, where \<open>/bin/ls\<close> canonicalizes to itself and is executable: the
  canonical path is not accepted; the run exits with status 1 and the diagnostic
  "/bin/ls : Command not found".
\<close>

theorem canonical_path_rejected:
  "realpath world_abs ''/bin/ls'' = Inr ''/bin/ls'' \<and>
   access_X_OK world_abs ''/bin/ls'' = None \<and>
   fst (main world_abs argv_abs) = Exited 1 \<and>
   last (trace (snd (main world_abs argv_abs))) = Error ''/bin/ls : Command not found''"
  by code_simp

text \<open>
  Line 180 as written: \<open>errno\<close> is compared with ENAMETOOLONG whatever \<open>realpath\<close>
  returned, so a successful \<open>realpath\<close> that leaves \<open>errno\<close> alone, entered with that value
  in \<open>errno\<close>, ends the run.
\<close>

lemma main_resolve_stale_errno:
  assumes "realpath w arg0 = Inr p" and "realpath_success_errno w = None"
      and "errno s = ENAMETOOLONG"
  shows "main_resolve w arg0 s =
           Done (Exited 1) (log (Error ''Path too long'') (log (Call_realpath (Str arg0)) s))"
  using assms
  by (simp add: main_resolve_def do_realpath_def error_def log_def Let_def)

lemma main_resolve_too_long:
  assumes "realpath w arg0 = Inl ENAMETOOLONG"
  shows "main_resolve w arg0 s =
           Done (Exited 1)
             (log (Error ''Path too long'')
               ((log (Call_realpath (Str arg0)) s)\<lparr>errno := ENAMETOOLONG\<rparr>))"
  using assms
  by (simp add: main_resolve_def do_realpath_def error_def log_def Let_def)

text \<open>
  C8. \<open>sr /bin/ls -l\<close> when an earlier call has left \<open>errno\<close> at ENAMETOOLONG:
  \<open>realpath\<close> succeeds without touching \<open>errno\<close>, and the run still exits with status 1 and
  the diagnostic "Path too long".
\<close>

theorem stale_errno_path_too_long:
  "realpath world_stale_errno ''/bin/ls'' = Inr ''/bin/ls'' \<and>
   realpath_success_errno world_stale_errno = None \<and>
   fst (main world_stale_errno argv_abs) = Exited 1 \<and>
   last (trace (snd (main world_stale_errno argv_abs))) = Error ''Path too long''"
  by code_simp

subsection \<open>The launch\<close>

text \<open>
  Line 91 as written: \<open>execve\<close> returns only with -1, so the test \<open>i == -1 || errno ==
  ENOEXEC\<close> holds for every failure, and the shell is tried whatever \<open>errno\<close> is.
\<close>

lemma sr_execve_fallback_any_errno:
  assumes "execve w c = Some e" and "reallocarray_ok w"
  shows "sr_execve w (Str c) argc av envp s =
           bnd (do_execve w (Str ''/bin/sh'') (block_cells (nargv_build (Str c) argc av)) envp
                  (log (Call_reallocarray (argc + 1))
                    ((log (Call_execve (Str c) av envp) s)\<lparr>errno := e\<rparr>)))
               (\<lambda>_ s. Cont () s)"
  using assms
  by (simp add: sr_execve_def do_execve_def Let_def)

text \<open>
  C4. \<open>sr ls -l\<close> when the \<open>execve\<close> of \<open>/bin/ls\<close> fails with EACCES, which is not ENOEXEC:
  the shell fallback runs all the same, and the image becomes \<open>/bin/sh\<close> with the
  arguments \<open>sh\<close>, \<open>/bin/ls\<close>, \<open>ls\<close>, \<open>-l\<close>.
\<close>

theorem shell_fallback_on_eacces:
  "execve world_exec_eacces ''/bin/ls'' = Some EACCES \<and> EACCES \<noteq> ENOEXEC \<and>
   fst (main world_exec_eacces argv_ls) =
     Replaced ''/bin/sh'' [Str ''sh'', Str ''/bin/ls'', Str ''ls'', Str ''-l''] [''TERM=xterm'']"
  by code_simp

text \<open>
  Lines 89-103 and 191-198 as written: when neither \<open>execve\<close> succeeds \<open>sr_execve\<close> comes
  back without a diagnostic, and \<open>main\<close> goes on to \<open>return 0\<close>.
\<close>

lemma sr_execve_returns:
  assumes "execve w c = Some e" and "execve w ''/bin/sh'' = Some e'"
  shows "\<exists>s'. sr_execve w (Str c) argc av envp s = Cont () s' \<and>
              diagnostics (trace s') = diagnostics (trace s)"
  using assms
  by (simp add: sr_execve_def do_execve_def log_def Let_def diagnostics_def List.map_filter_def)

text \<open>
  C3. \<open>sr ls -l\<close> when both the \<open>execve\<close> of \<open>/bin/ls\<close> and the one of \<open>/bin/sh\<close> fail:
  \<open>sr_execve\<close> returns, \<open>main\<close> falls through to \<open>return 0\<close>, and the run ends with status 0
  and no diagnostic line.
\<close>

theorem exec_failure_returns_zero:
  "execve world_exec_fails ''/bin/ls'' = Some EACCES \<and>
   execve world_exec_fails ''/bin/sh'' = Some EACCES \<and>
   fst (main world_exec_fails argv_ls) = Exited 0 \<and>
   diagnostics (trace (snd (main world_exec_fails argv_ls))) = []"
  by code_simp

lemma argv_copy: "take (length args) (argv_array args) = map Str args"
  by (simp add: argv_array_def)

lemma nargv_written:
  "written (nargv_build command (length args) (argv_array args)) =
     (0, Str ''sh'') # (1, command) # zip [2 ..< 2 + length args] (map Str args)"
  by (simp only: nargv_build_def reallocarray_def store_def memcpy_def argv_copy Let_def
      block.simps append.simps)

lemma nargv_cells:
  "block_cells (nargv_build command (length args) (argv_array args)) =
     Str ''sh'' # command # map Str args"
  by (simp add: block_cells_def nargv_written del: upt_Suc)

lemma upt_shift2: "0 # Suc 0 # [2 ..< 2 + n] = [0 ..< n + 2]"
proof -
  have "[0 ..< n + 2] = 0 # [Suc 0 ..< n + 2]"
    by (rule upt_conv_Cons) simp
  also have "[Suc 0 ..< n + 2] = Suc 0 # [Suc (Suc 0) ..< n + 2]"
    by (rule upt_conv_Cons) simp
  finally show ?thesis
    by (simp add: numeral_2_eq_2 del: upt_Suc)
qed

text \<open>
  C9. For every argument vector \<open>args\<close> (\<open>argc = length args\<close>) the block built for the
  shell has \<open>argc + 1\<close> slots and receives \<open>argc + 2\<close> stores, at the indices \<open>0\<close> to
  \<open>argc + 1\<close>: \<open>sh\<close>, the command, and the \<open>argc\<close> strings of \<open>args\<close>. The last index,
  \<open>argc + 1\<close>, is not below the number of slots. The null pointer at index \<open>argc\<close> of the
  original array is not among the pointers stored, so no stored pointer is null, and
  this unterminated vector is what the \<open>execve\<close> of \<open>/bin/sh\<close> is called with.
\<close>

theorem nargv_one_slot_short:
  "slots (nargv_build command (length args) (argv_array args)) = length args + 1 \<and>
   length (written (nargv_build command (length args) (argv_array args))) = length args + 2 \<and>
   map fst (written (nargv_build command (length args) (argv_array args))) = [0 ..< length args + 2] \<and>
   last (map fst (written (nargv_build command (length args) (argv_array args)))) = length args + 1 \<and>
   \<not> length args + 1 < slots (nargv_build command (length args) (argv_array args)) \<and>
   block_cells (nargv_build command (length args) (argv_array args)) =
     Str ''sh'' # command # map Str args \<and>
   argv_array args ! length args = Null \<and>
   Null \<notin> set (block_cells (nargv_build (Str c) (length args) (argv_array args))) \<and>
   (execve w c = Some e \<and> reallocarray_ok w \<longrightarrow>
      Call_execve (Str ''/bin/sh'') (Str ''sh'' # Str c # map Str args) envp
        \<in> set (trace (final_proc (sr_execve w (Str c) (length args) (argv_array args) envp s))))"
proof -
  let ?b = "nargv_build command (length args) (argv_array args)"
  have s: "slots ?b = length args + 1"
    by (simp add: nargv_build_def reallocarray_def store_def memcpy_def Let_def)
  have ix: "map fst (written ?b) = [0 ..< length args + 2]"
    using upt_shift2 [of "length args"] by (simp add: nargv_written del: upt_Suc)
  have l: "length (written ?b) = length args + 2"
    by (simp add: nargv_written del: upt_Suc)
  have la: "last (map fst (written ?b)) = length args + 1"
    by (simp add: ix)
  have t: "argv_array args ! length args = Null"
    by (simp add: argv_array_def nth_append)
  have n: "Null \<notin> set (block_cells (nargv_build (Str c) (length args) (argv_array args)))"
    by (auto simp: nargv_cells)
  have x: "Call_execve (Str ''/bin/sh'') (Str ''sh'' # Str c # map Str args) envp
        \<in> set (trace (final_proc (sr_execve w (Str c) (length args) (argv_array args) envp s)))"
    if "execve w c = Some e" "reallocarray_ok w"
    using that
    by (simp add: sr_execve_def do_execve_def nargv_cells log_def Let_def split: option.splits)
  show ?thesis
    using s ix l la t n x by (simp add: nargv_cells)
qed

theorem nargv_one_slot_short_witness:
  "execve world_exec_fails ''/bin/ls'' = Some EACCES \<and> reallocarray_ok world_exec_fails \<and>
   slots (nargv_build (Str ''/bin/ls'') 2 (argv_array [''ls'', ''-l''])) = 3 \<and>
   map fst (written (nargv_build (Str ''/bin/ls'') 2 (argv_array [''ls'', ''-l'']))) = [0, 1, 2, 3] \<and>
   Call_execve (Str ''/bin/sh'') [Str ''sh'', Str ''/bin/ls'', Str ''ls'', Str ''-l''] []
     \<in> set (trace (final_proc (sr_execve world_exec_fails (Str ''/bin/ls'') 2
                                  (argv_array [''ls'', ''-l'']) [] proc0)))"
proof -
  have x: "execve world_exec_fails ''/bin/ls'' = Some EACCES" "reallocarray_ok world_exec_fails"
    by (simp_all add: world_exec_fails_def world_ls_def)
  have u: "[0 ..< 4] = [0, 1, 2, Suc 2]"
    by (simp add: upt_rec)
  show ?thesis
    using nargv_one_slot_short [of "Str ''/bin/ls''" "[''ls'', ''-l'']" "''/bin/ls''"
        world_exec_fails EACCES "[]" proc0] x
    by (simp add: u numeral_2_eq_2 numeral_3_eq_3)
qed

subsection \<open>The role hint\<close>

text \<open>
  No step after the option parsing depends on the option sequence, and \<open>main\<close> reads the
  field \<open>role\<close> in the info branch only: two runs whose parsed options differ in the role
  alone, with \<open>-i\<close> not given, are the same run.
\<close>

lemma access_getopt_seq: "access (w\<lparr>getopt_seq := xs\<rparr>) = access w"
  by (rule ext)+ (simp add: access_def Let_def
       cong: cptr.case_cong option.case_cong prod.case_cong sum.case_cong if_cong)

lemma path_loop_getopt_seq:
  "path_loop (w\<lparr>getopt_seq := xs\<rparr>) file ts s = path_loop w file ts s"
  by (induction ts arbitrary: s) (simp_all add: access_getopt_seq Let_def
       cong: cptr.case_cong option.case_cong prod.case_cong sum.case_cong if_cong)

lemma find_getopt_seq:
  "find_absolute_path_from_env (w\<lparr>getopt_seq := xs\<rparr>) = find_absolute_path_from_env w"
  by (rule ext)+ (simp add: find_absolute_path_from_env_def path_loop_getopt_seq Let_def
       cong: cptr.case_cong option.case_cong prod.case_cong sum.case_cong if_cong)

lemma do_execve_getopt_seq: "do_execve (w\<lparr>getopt_seq := xs\<rparr>) = do_execve w"
  by (rule ext)+ (simp add: do_execve_def Let_def
       cong: cptr.case_cong option.case_cong prod.case_cong sum.case_cong if_cong)

lemma sr_execve_getopt_seq: "sr_execve (w\<lparr>getopt_seq := xs\<rparr>) = sr_execve w"
  by (rule ext)+ (simp add: sr_execve_def do_execve_getopt_seq Let_def
       cong: cptr.case_cong option.case_cong prod.case_cong sum.case_cong if_cong)

lemma main_capabilities_getopt_seq:
  "main_capabilities (w\<lparr>getopt_seq := xs\<rparr>) = main_capabilities w"
  by (rule ext)+
     (simp add: main_capabilities_def setpcap_effective_def cap_iab_set_proc_def
       activates_securebits_def Let_def
       cong: cptr.case_cong option.case_cong prod.case_cong sum.case_cong if_cong)

lemma main_resolve_getopt_seq: "main_resolve (w\<lparr>getopt_seq := xs\<rparr>) = main_resolve w"
  by (rule ext)+
     (simp add: main_resolve_def do_realpath_def access_getopt_seq find_getopt_seq Let_def
       cong: cptr.case_cong option.case_cong prod.case_cong sum.case_cong if_cong)

lemma main_launch_getopt_seq: "main_launch (w\<lparr>getopt_seq := xs\<rparr>) = main_launch w"
  by (rule ext)+ (simp add: main_launch_def main_resolve_getopt_seq sr_execve_getopt_seq Let_def
       cong: cptr.case_cong option.case_cong prod.case_cong sum.case_cong if_cong)

lemma main_command_getopt_seq: "main_command (w\<lparr>getopt_seq := xs\<rparr>) = main_command w"
  by (rule ext)+
     (simp add: main_command_def main_capabilities_getopt_seq main_launch_getopt_seq Let_def
       cong: cptr.case_cong option.case_cong prod.case_cong sum.case_cong if_cong)

lemma main_role_independent:
  assumes "getopt_loop (getopt_seq w) arguments_init = (1, a)"
      and "getopt_loop xs arguments_init = (1, a\<lparr>role := r\<rparr>)"
      and "info a = 0"
  shows "main (w\<lparr>getopt_seq := xs\<rparr>) argv0 = main w argv0"
  using assms
  by (simp add: main_def parse_arguments_def main_command_getopt_seq Let_def
       cong: cptr.case_cong option.case_cong prod.case_cong sum.case_cong if_cong)

text \<open>
  C5. \<open>sr -r netops ls -l\<close>: the option parser stores the role \<open>netops\<close>, for which alone
  the policy grants \<open>cap_net\<close> with \<open>no_root\<close>. Line 151 passes no role to
  \<open>get_settings_from_config\<close>; the triple installed is \<open>cap_admin\<close>, that of the role
  \<open>admin\<close>, which holds a capability \<open>cap_net\<close> does not, and the lockdown of \<open>netops\<close> is
  not activated.
\<close>

theorem role_hint_ignored:
  "role (snd (getopt_loop (getopt_seq world_roles) arguments_init)) = Str ''netops'' \<and>
   spec_resolve policy_two_roles ''alice'' [''ops''] ''ls'' (Some ''netops'') =
     Granted cap_net opts_no_root \<and>
   proc_iab (snd (main world_roles argv_roles)) = Some cap_admin \<and>
   \<not> securebits (snd (main world_roles argv_roles)) \<and>
   \<not> set (ambient cap_admin) \<subseteq> set (ambient cap_net)"
  by code_simp

subsection \<open>An invocation without a command\<close>

text \<open>
  C10. When the options select none of help, version and info, and the user, the
  authentication and the groups are in order, an invocation that supplies no command
  (\<open>getopt_long\<close> stops at \<open>optind = argc\<close>, so that the remaining argument list is empty
  and \<open>argc\<close> is 0 after \<open>parse_arguments\<close>) makes the \<open>argv[0]\<close> of line 147 the slot
  \<open>argc\<close> of the original array, the null pointer that ends it; \<open>strnlen\<close> reads through
  it and the run ends in a memory fault, before the policy is consulted.
\<close>

theorem missing_command_null_read:
  assumes "fst (getopt_loop (getopt_seq w) arguments_init) = 1"
      and "help_flag (snd (getopt_loop (getopt_seq w) arguments_init)) = 0"
      and "version (snd (getopt_loop (getopt_seq w) arguments_init)) = 0"
      and "info (snd (getopt_loop (getopt_seq w) arguments_init)) = 0"
      and "get_username w (geteuid w) = Str user"
      and "pam_authenticate_user w user \<noteq> 0"
      and "get_group_names w user (get_group_id w (geteuid w)) = (0, groups)"
      and "optind w \<le> length argv0"
      and "drop (optind w) argv0 = []"
  shows "optind w = length argv0 \<and>
         int (length argv0) - int (optind w) = 0 \<and>
         length argv0 - optind w = 0 \<and>
         argv_read argv0 (optind w) = Null \<and>
         argv_read (drop (optind w) argv0) 0 = Null \<and>
         main w argv0 =
           (Crashed Null_dereference,
            proc0\<lparr>trace := [Call_get_username (geteuid w), Call_pam_authenticate_user user,
                             Call_get_group_names user (get_group_id w (geteuid w))]\<rparr>)"
proof -
  obtain r a where g: "getopt_loop (getopt_seq w) arguments_init = (r, a)"
    by (cases "getopt_loop (getopt_seq w) arguments_init")
  with assms have flags: "r = 1" "help_flag a = 0" "version a = 0" "info a = 0"
    by simp_all
  from assms(8,9) have o: "optind w = length argv0"
    by simp
  have n: "argv_read (drop (optind w) argv0) 0 = Null"
    by (simp add: argv_read_def assms(9))
  have n0: "argv_read argv0 (optind w) = Null"
    by (simp add: argv_read_def o)
  have "main w argv0 =
           (Crashed Null_dereference,
            proc0\<lparr>trace := [Call_get_username (geteuid w), Call_pam_authenticate_user user,
                             Call_get_group_names user (get_group_id w (geteuid w))]\<rparr>)"
    using assms(5-7) assms(9)
    by (simp add: main_def parse_arguments_def g flags main_command_def argv_read_def log_def
        proc0_def Let_def)
  with o n n0 show ?thesis by simp
qed

theorem missing_command_null_read_witness:
  "optind world_ls \<le> length argv_none \<and>
   drop (optind world_ls) argv_none = [] \<and>
   optind world_ls = length argv_none \<and>
   argv_read argv_none (optind world_ls) = Null \<and>
   fst (main world_ls argv_none) = Crashed Null_dereference"
proof -
  have g: "getopt_loop (getopt_seq world_ls) arguments_init = (1, arguments_init)"
    by (simp add: world_ls_def)
  have f: "fst (getopt_loop (getopt_seq world_ls) arguments_init) = 1"
       "help_flag (snd (getopt_loop (getopt_seq world_ls) arguments_init)) = 0"
       "version (snd (getopt_loop (getopt_seq world_ls) arguments_init)) = 0"
       "info (snd (getopt_loop (getopt_seq world_ls) arguments_init)) = 0"
    using g by (simp_all add: arguments_init_def)
  have l: "optind world_ls \<le> length argv_none"
    by (simp add: world_ls_def argv_none_def)
  have d: "drop (optind world_ls) argv_none = []"
    by (simp add: world_ls_def argv_none_def)
  have u: "get_username world_ls (geteuid world_ls) = Str ''alice''"
       "pam_authenticate_user world_ls ''alice'' \<noteq> 0"
       "get_group_names world_ls ''alice'' (get_group_id world_ls (geteuid world_ls)) = (0, [''ops''])"
    by (simp_all add: world_ls_def)
  note t = missing_command_null_read [OF f u l d]
  from t have o: "optind world_ls = length argv_none"
    by (rule conjunct1)
  from t have n: "argv_read argv_none (optind world_ls) = Null"
    by blast
  from t have "main world_ls argv_none =
      (Crashed Null_dereference,
       proc0\<lparr>trace := [Call_get_username (geteuid world_ls), Call_pam_authenticate_user ''alice'',
                        Call_get_group_names ''alice'' (get_group_id world_ls (geteuid world_ls))]\<rparr>)"
    by blast
  then have m: "fst (main world_ls argv_none) = Crashed Null_dereference"
    by (simp only: fst_conv)
  from l d o n m show ?thesis
    by (intro conjI)
qed

end
